theory Spec2Isabelle
  imports Main "HOL-Library.Word"
begin

section \<open>The native engine behind speechapi\_c\_result.h\<close>

text \<open>
  The header speechapi\_cxx\_recognition\_result.h wraps an opaque native handle and the
  C functions \<open>result_get_*\<close> of a separately shipped library. The library is a parameter of
  the model: a record with one field per C function the header calls, giving for a handle the
  status the call returns and the value it leaves in its out-parameter.

  A handle is opaque; the only value the header tells apart is \<open>SPXHANDLE_INVALID\<close>.
\<close>

datatype SPXHANDLE = SPXHANDLE_INVALID | SPXHANDLE nat

type_synonym SPXRESULTHANDLE = SPXHANDLE
type_synonym SPXPROPERTYBAGHANDLE = SPXHANDLE
type_synonym SPXHR = nat
type_synonym SPXSTRING = string
type_synonym uint64_t = "64 word"

text \<open>
  The enumerations (\<open>Result_Reason\<close>, \<open>Speech::ResultReason\<close>, \<open>CancellationReason\<close>, ...)
  are declared in headers outside this file; the header only casts between the C and the C++
  enumeration of the same quantity, which keeps the underlying integer. They are modelled by
  that integer.
\<close>

type_synonym Result_Reason = int
type_synonym ResultReason = int
type_synonym CancellationReason = int
type_synonym CancellationErrorCode = int
type_synonym NoMatchReason = int

text \<open>The one property key the header names; every other key of the enumeration is \<open>PropertyId_other\<close>.\<close>

datatype PropertyId = SpeechServiceResponse_JsonErrorDetails | PropertyId_other nat

text \<open>
  \<open>result_get_result_id\<close> and \<open>result_get_text\<close> take the caller's buffer and its character
  count; the second component is the NUL-terminated string the call leaves in the buffer.
  \<open>result_get_property_bag\<close> is the one call whose status the header ignores, so its
  out-parameter may stay unwritten (\<open>None\<close>). \<open>property_bag\<close> is the content of a property
  bag, the mapping from property key to string value that a \<open>PropertyCollection\<close> reads.
\<close>

record engine =
  result_get_property_bag :: "SPXRESULTHANDLE \<Rightarrow> SPXHR \<times> SPXPROPERTYBAGHANDLE option"
  result_get_result_id :: "SPXRESULTHANDLE \<Rightarrow> nat \<Rightarrow> SPXHR \<times> string"
  result_get_reason :: "SPXRESULTHANDLE \<Rightarrow> SPXHR \<times> Result_Reason"
  result_get_text :: "SPXRESULTHANDLE \<Rightarrow> nat \<Rightarrow> SPXHR \<times> string"
  result_get_offset :: "SPXRESULTHANDLE \<Rightarrow> SPXHR \<times> uint64_t"
  result_get_duration :: "SPXRESULTHANDLE \<Rightarrow> SPXHR \<times> uint64_t"
  result_get_reason_canceled :: "SPXRESULTHANDLE \<Rightarrow> SPXHR \<times> int"
  result_get_canceled_error_code :: "SPXRESULTHANDLE \<Rightarrow> SPXHR \<times> int"
  result_get_no_match_reason :: "SPXRESULTHANDLE \<Rightarrow> SPXHR \<times> int"
  property_bag :: "SPXPROPERTYBAGHANDLE \<Rightarrow> PropertyId \<Rightarrow> string option"

text \<open>
  Every call into the library is an effect. The world is the log of the calls made so far, in
  order; a function of the header takes the log and returns it extended.
\<close>

datatype call =
    Call_result_get_property_bag SPXRESULTHANDLE
  | Call_result_get_result_id SPXRESULTHANDLE nat
  | Call_result_get_reason SPXRESULTHANDLE
  | Call_result_get_text SPXRESULTHANDLE nat
  | Call_result_get_offset SPXRESULTHANDLE
  | Call_result_get_duration SPXRESULTHANDLE
  | Call_result_get_reason_canceled SPXRESULTHANDLE
  | Call_result_get_canceled_error_code SPXRESULTHANDLE
  | Call_result_get_no_match_reason SPXRESULTHANDLE
  | Call_recognizer_result_handle_release SPXRESULTHANDLE
  | Call_property_bag_get_string SPXPROPERTYBAGHANDLE PropertyId

type_synonym world = "call list"

text \<open>How often \<open>recognizer_result_handle_release\<close> has been called on a handle.\<close>

definition release_count :: "world \<Rightarrow> SPXRESULTHANDLE \<Rightarrow> nat" where
  "release_count w h = count_list w (Call_recognizer_result_handle_release h)"

section \<open>Errors\<close>

text \<open>
  Modelled from the spec: the macros \<open>SPX_THROW_ON_FAIL\<close> and \<open>SPX_IFFAILED_THROW_HR\<close> and
  the status \<open>SPX_NOERROR\<close> come from speechapi\_cxx\_common.h, which is not among the sources.
  The spec has a single error kind, \<open>EngineError(code)\<close>, "raised whenever any underlying
  query call reports failure", "surfacing the engine's status code". A status reports failure
  when it is not \<open>SPX_NOERROR\<close>; the exception carries the status.
\<close>

datatype error = EngineError SPXHR

definition SPX_NOERROR :: SPXHR where
  "SPX_NOERROR = 0"

definition SPX_FAILED :: "SPXHR \<Rightarrow> bool" where
  "SPX_FAILED hr = (hr \<noteq> SPX_NOERROR)"

definition SPX_THROW_ON_FAIL :: "SPXHR \<Rightarrow> world \<Rightarrow> (error + unit) \<times> world" where
  "SPX_THROW_ON_FAIL hr w = (if SPX_FAILED hr then Inl (EngineError hr) else Inr (), w)"

definition SPX_IFFAILED_THROW_HR :: "SPXHR \<Rightarrow> world \<Rightarrow> (error + unit) \<times> world" where
  "SPX_IFFAILED_THROW_HR hr w = (if SPX_FAILED hr then Inl (EngineError hr) else Inr (), w)"

text \<open>
  Sequencing of statements that may throw: once a statement has thrown, the ones after it do
  not run, and the log stays as the throwing statement left it.
\<close>

definition andThen ::
  "(error + 'a) \<times> world \<Rightarrow> ('a \<Rightarrow> world \<Rightarrow> (error + 'b) \<times> world) \<Rightarrow> (error + 'b) \<times> world" where
  "andThen r k = (case r of (Inl err, w) \<Rightarrow> (Inl err, w) | (Inr x, w) \<Rightarrow> k x w)"

section \<open>PropertyCollection\<close>

text \<open>
  Modelled from the spec: the class \<open>PropertyCollection\<close> (speechapi\_cxx\_properties.h) and
  \<open>Utils::ToSPXString\<close> (speechapi\_cxx\_string\_helpers.h) are not among the sources. For
  the spec a result's properties are a "mapping from property-key to string value", and a
  lookup "on a result with no such property returns an empty/absent value, not an error"; the
  strings read from the engine are stored as "copies". A collection holds the handle of its
  property bag; \<open>GetProperty\<close> reads the bag and gives the empty string for a missing key.
\<close>

datatype PropertyCollection = PropertyCollection SPXPROPERTYBAGHANDLE

fun propbag_handle :: "PropertyCollection \<Rightarrow> SPXPROPERTYBAGHANDLE" where
  "propbag_handle (PropertyCollection hpropbag) = hpropbag"

definition GetProperty ::
  "engine \<Rightarrow> PropertyCollection \<Rightarrow> PropertyId \<Rightarrow> world \<Rightarrow> SPXSTRING \<times> world" where
  "GetProperty e pc propertyID w =
     (case property_bag e (propbag_handle pc) propertyID of
        None \<Rightarrow> ([], w @ [Call_property_bag_get_string (propbag_handle pc) propertyID])
      | Some s \<Rightarrow> (s, w @ [Call_property_bag_get_string (propbag_handle pc) propertyID]))"

definition ToSPXString :: "string \<Rightarrow> SPXSTRING" where
  "ToSPXString sz = sz"

section \<open>class RecognitionResult\<close>

text \<open>
  The data members. The public members \<open>ResultId\<close>, \<open>Reason\<close>, \<open>Text\<close> and \<open>Properties\<close>
  and the protected member \<open>Handle\<close> are const references bound in the constructor to
  \<open>m_resultId\<close>, \<open>m_reason\<close>, \<open>m_text\<close>, \<open>m_properties\<close> and \<open>m_hresult\<close>.
\<close>

record RecognitionResult =
  m_properties :: PropertyCollection
  m_hresult :: SPXRESULTHANDLE
  m_resultId :: SPXSTRING
  m_reason :: ResultReason
  m_text :: SPXSTRING
  m_offset :: uint64_t
  m_duration :: uint64_t

text \<open>
  \<open>PrivatePropertyCollection(hresult)\<close>: the property bag handle starts as
  \<open>SPXHANDLE_INVALID\<close>, \<open>result_get_property_bag\<close> is called and its status dropped.
\<close>

definition PrivatePropertyCollection ::
  "engine \<Rightarrow> SPXRESULTHANDLE \<Rightarrow> world \<Rightarrow> PropertyCollection \<times> world" where
  "PrivatePropertyCollection e hresult w =
     (PropertyCollection
        (case snd (result_get_property_bag e hresult) of
           None \<Rightarrow> SPXHANDLE_INVALID
         | Some hpropbag \<Rightarrow> hpropbag),
      w @ [Call_result_get_property_bag hresult])"

text \<open>
  \<open>PopulateResultFields(hresult, resultId, reason, text)\<close>, a member function: the three
  pointers, when not null, point to \<open>m_resultId\<close>, \<open>m_reason\<close> and \<open>m_text\<close> of the object
  (the booleans say "not null"). The five queries run in the order of the source; the first
  failing one throws.
\<close>

definition PopulateResultFields ::
  "engine \<Rightarrow> SPXRESULTHANDLE \<Rightarrow> bool \<Rightarrow> bool \<Rightarrow> bool \<Rightarrow> RecognitionResult \<Rightarrow> world
     \<Rightarrow> (error + RecognitionResult) \<times> world" where
  "PopulateResultFields e hresult resultId reason text this w =
     (let maxCharCount = 1024 in
      andThen
        (if resultId then
           (case result_get_result_id e hresult maxCharCount of (hr, sz) \<Rightarrow>
              andThen (SPX_THROW_ON_FAIL hr (w @ [Call_result_get_result_id hresult maxCharCount]))
                (\<lambda>_ w. (Inr (this\<lparr>m_resultId := ToSPXString sz\<rparr>), w)))
         else (Inr this, w))
        (\<lambda>this w. andThen
           (if reason then
              (case result_get_reason e hresult of (hr, resultReason) \<Rightarrow>
                 andThen (SPX_THROW_ON_FAIL hr (w @ [Call_result_get_reason hresult]))
                   (\<lambda>_ w. (Inr (this\<lparr>m_reason := resultReason\<rparr>), w)))
            else (Inr this, w))
           (\<lambda>this w. andThen
              (if text then
                 (case result_get_text e hresult maxCharCount of (hr, sz) \<Rightarrow>
                    andThen (SPX_THROW_ON_FAIL hr (w @ [Call_result_get_text hresult maxCharCount]))
                      (\<lambda>_ w. (Inr (this\<lparr>m_text := ToSPXString sz\<rparr>), w)))
               else (Inr this, w))
              (\<lambda>this w. andThen
                 (case result_get_offset e hresult of (hr, offset) \<Rightarrow>
                    andThen (SPX_THROW_ON_FAIL hr (w @ [Call_result_get_offset hresult]))
                      (\<lambda>_ w. (Inr (this\<lparr>m_offset := offset\<rparr>), w)))
                 (\<lambda>this w.
                    (case result_get_duration e hresult of (hr, duration) \<Rightarrow>
                       andThen (SPX_THROW_ON_FAIL hr (w @ [Call_result_get_duration hresult]))
                         (\<lambda>_ w. (Inr (this\<lparr>m_duration := duration\<rparr>), w))))))))"

text \<open>
  The constructor \<open>RecognitionResult(hresult)\<close>. Members are initialised in the order of their
  declaration: \<open>m_properties\<close> first (from the parameter \<open>hresult\<close>), then \<open>m_hresult\<close>; the
  strings start empty. C++ leaves \<open>m_reason\<close>, \<open>m_offset\<close> and \<open>m_duration\<close> indeterminate
  until the body assigns them (they start as 0 here; \<open>PopulateResultFields\<close> assigns all three
  before it returns). When the body throws, no object exists afterwards and the destructor of
  the class does not run: the result is the error and the log. (The destructors of the members
  run instead; the one of \<open>m_properties\<close> belongs to \<open>PropertyCollection\<close> and concerns the
  property bag handle, not the result handle.)
\<close>

definition RecognitionResult_ctor ::
  "engine \<Rightarrow> SPXRESULTHANDLE \<Rightarrow> world \<Rightarrow> (error + RecognitionResult) \<times> world" where
  "RecognitionResult_ctor e hresult w =
     (case PrivatePropertyCollection e hresult w of (props, w1) \<Rightarrow>
        PopulateResultFields e hresult True True True
          \<lparr>m_properties = props, m_hresult = hresult, m_resultId = [], m_reason = 0,
           m_text = [], m_offset = 0, m_duration = 0\<rparr> w1)"

text \<open>
  The body of the destructor \<open>~RecognitionResult()\<close>: release the stored handle, then overwrite
  it with \<open>SPXHANDLE_INVALID\<close>. The object is returned as the body leaves it.
\<close>

definition RecognitionResult_dtor ::
  "RecognitionResult \<Rightarrow> world \<Rightarrow> RecognitionResult \<times> world" where
  "RecognitionResult_dtor this w =
     (this\<lparr>m_hresult := SPXHANDLE_INVALID\<rparr>,
      w @ [Call_recognizer_result_handle_release (m_hresult this)])"

text \<open>
  The public read members. Each takes the object and the log and returns its value with the
  object and the log after the read.
\<close>

definition ResultId :: "RecognitionResult \<Rightarrow> world \<Rightarrow> SPXSTRING \<times> RecognitionResult \<times> world" where
  "ResultId this w = (m_resultId this, this, w)"

definition Reason :: "RecognitionResult \<Rightarrow> world \<Rightarrow> ResultReason \<times> RecognitionResult \<times> world" where
  "Reason this w = (m_reason this, this, w)"

definition Text :: "RecognitionResult \<Rightarrow> world \<Rightarrow> SPXSTRING \<times> RecognitionResult \<times> world" where
  "Text this w = (m_text this, this, w)"

definition Duration :: "RecognitionResult \<Rightarrow> world \<Rightarrow> uint64_t \<times> RecognitionResult \<times> world" where
  "Duration this w = (m_duration this, this, w)"

definition Offset :: "RecognitionResult \<Rightarrow> world \<Rightarrow> uint64_t \<times> RecognitionResult \<times> world" where
  "Offset this w = (m_offset this, this, w)"

definition Properties ::
  "RecognitionResult \<Rightarrow> world \<Rightarrow> PropertyCollection \<times> RecognitionResult \<times> world" where
  "Properties this w = (m_properties this, this, w)"

text \<open>\<open>explicit operator SPXRESULTHANDLE()\<close>, public, documented "Internal".\<close>

definition operator_SPXRESULTHANDLE ::
  "RecognitionResult \<Rightarrow> world \<Rightarrow> SPXRESULTHANDLE \<times> RecognitionResult \<times> world" where
  "operator_SPXRESULTHANDLE this w = (m_hresult this, this, w)"

text \<open>
  The public members of the class that read the object, and what reading one yields. The
  values keep their C++ types apart.
\<close>

datatype public_member =
    Member_ResultId
  | Member_Reason
  | Member_Text
  | Member_Duration
  | Member_Offset
  | Member_Properties
  | Member_operator_SPXRESULTHANDLE

datatype member_value =
    Value_SPXSTRING SPXSTRING
  | Value_ResultReason ResultReason
  | Value_uint64_t uint64_t
  | Value_PropertyCollection PropertyCollection
  | Value_SPXRESULTHANDLE SPXRESULTHANDLE

fun public_read :: "public_member \<Rightarrow> RecognitionResult \<Rightarrow> world \<Rightarrow> member_value" where
  "public_read Member_ResultId this w = Value_SPXSTRING (fst (ResultId this w))"
| "public_read Member_Reason this w = Value_ResultReason (fst (Reason this w))"
| "public_read Member_Text this w = Value_SPXSTRING (fst (Text this w))"
| "public_read Member_Duration this w = Value_uint64_t (fst (Duration this w))"
| "public_read Member_Offset this w = Value_uint64_t (fst (Offset this w))"
| "public_read Member_Properties this w = Value_PropertyCollection (fst (Properties this w))"
| "public_read Member_operator_SPXRESULTHANDLE this w =
     Value_SPXRESULTHANDLE (fst (operator_SPXRESULTHANDLE this w))"

text \<open>
  A \<open>std::shared_ptr<RecognitionResult>\<close> that a function takes by value is the object it
  points to together with \<open>use_count\<close>, the number of owners of the object while the call
  runs, the parameter included (so at least 1). When the call ends, by return or by throw, the
  parameter is destroyed. If it was the only owner, \<open>~RecognitionResult()\<close> runs and the
  object is gone (\<open>None\<close>); otherwise the object lives on as it is.
\<close>

definition shared_ptr_dtor ::
  "RecognitionResult \<Rightarrow> nat \<Rightarrow> world \<Rightarrow> RecognitionResult option \<times> world" where
  "shared_ptr_dtor result use_count w =
     (if use_count \<le> 1 then (None, snd (RecognitionResult_dtor result w))
      else (Some result, w))"

section \<open>class CancellationDetails\<close>

text \<open>
  \<open>ErrorDetails\<close> is a data member; \<open>Reason\<close> and \<open>ErrorCode\<close> are const references to
  \<open>m_reason\<close> and \<open>m_errorCode\<close>. The argument \<open>result\<close> of the functions below is the object
  a non-null pointer points to (dereferencing a null pointer is undefined in C++ and has no
  counterpart here); it is returned as the function leaves it.
\<close>

record CancellationDetails =
  cancellation_m_reason :: CancellationReason
  cancellation_m_errorCode :: CancellationErrorCode
  cancellation_ErrorDetails :: SPXSTRING

definition CancellationDetails_Reason :: "CancellationDetails \<Rightarrow> CancellationReason" where
  "CancellationDetails_Reason d = cancellation_m_reason d"

definition CancellationDetails_ErrorCode :: "CancellationDetails \<Rightarrow> CancellationErrorCode" where
  "CancellationDetails_ErrorCode d = cancellation_m_errorCode d"

definition GetCancellationReason ::
  "engine \<Rightarrow> RecognitionResult \<Rightarrow> world \<Rightarrow> (error + CancellationReason) \<times> RecognitionResult \<times> world" where
  "GetCancellationReason e result w =
     (case operator_SPXRESULTHANDLE result w of (hresult, result1, w1) \<Rightarrow>
        (case result_get_reason_canceled e hresult of (hr, reason) \<Rightarrow>
           (case SPX_IFFAILED_THROW_HR hr (w1 @ [Call_result_get_reason_canceled hresult]) of
              (Inl err, w2) \<Rightarrow> (Inl err, result1, w2)
            | (Inr _, w2) \<Rightarrow> (Inr reason, result1, w2))))"

definition GetCancellationErrorCode ::
  "engine \<Rightarrow> RecognitionResult \<Rightarrow> world \<Rightarrow> (error + CancellationErrorCode) \<times> RecognitionResult \<times> world" where
  "GetCancellationErrorCode e result w =
     (case operator_SPXRESULTHANDLE result w of (hresult, result1, w1) \<Rightarrow>
        (case result_get_canceled_error_code e hresult of (hr, errorCode) \<Rightarrow>
           (case SPX_IFFAILED_THROW_HR hr (w1 @ [Call_result_get_canceled_error_code hresult]) of
              (Inl err, w2) \<Rightarrow> (Inl err, result1, w2)
            | (Inr _, w2) \<Rightarrow> (Inr errorCode, result1, w2))))"

text \<open>
  The constructor \<open>CancellationDetails(result)\<close>: \<open>m_reason\<close>, \<open>m_errorCode\<close> and
  \<open>ErrorDetails\<close> are initialised in this order, the order of their declaration.
\<close>

definition CancellationDetails_ctor ::
  "engine \<Rightarrow> RecognitionResult \<Rightarrow> world \<Rightarrow> (error + CancellationDetails) \<times> RecognitionResult \<times> world" where
  "CancellationDetails_ctor e result w =
     (case GetCancellationReason e result w of
        (Inl err, result1, w1) \<Rightarrow> (Inl err, result1, w1)
      | (Inr reason, result1, w1) \<Rightarrow>
          (case GetCancellationErrorCode e result1 w1 of
             (Inl err, result2, w2) \<Rightarrow> (Inl err, result2, w2)
           | (Inr errorCode, result2, w2) \<Rightarrow>
               (case Properties result2 w2 of (props, result3, w3) \<Rightarrow>
                  (case GetProperty e props SpeechServiceResponse_JsonErrorDetails w3 of
                     (details, w4) \<Rightarrow>
                       (Inr \<lparr>cancellation_m_reason = reason,
                             cancellation_m_errorCode = errorCode,
                             cancellation_ErrorDetails = details\<rparr>, result3, w4)))))"

text \<open>
  \<open>CancellationDetails::FromResult(result)\<close>. The check of \<open>result->Reason\<close> against
  \<open>ResultReason::Canceled\<close> is commented out in the source, so the body is the construction
  from \<open>result.get()\<close>. The parameter is a \<open>std::shared_ptr\<close> taken by value (see
  \<open>shared_ptr_dtor\<close>): it is destroyed when the call ends, after the construction has
  returned or thrown.
\<close>

definition CancellationDetails_FromResult ::
  "engine \<Rightarrow> RecognitionResult \<Rightarrow> nat \<Rightarrow> world
     \<Rightarrow> (error + CancellationDetails) \<times> RecognitionResult option \<times> world" where
  "CancellationDetails_FromResult e result use_count w =
     (case CancellationDetails_ctor e result w of (cancellation, result1, w1) \<Rightarrow>
        (case shared_ptr_dtor result1 use_count w1 of (result2, w2) \<Rightarrow>
           (cancellation, result2, w2)))"

section \<open>class NoMatchDetails\<close>

record NoMatchDetails =
  nomatch_m_reason :: NoMatchReason

definition NoMatchDetails_Reason :: "NoMatchDetails \<Rightarrow> NoMatchReason" where
  "NoMatchDetails_Reason d = nomatch_m_reason d"

definition GetNoMatchReason ::
  "engine \<Rightarrow> RecognitionResult \<Rightarrow> world \<Rightarrow> (error + NoMatchReason) \<times> RecognitionResult \<times> world" where
  "GetNoMatchReason e result w =
     (case operator_SPXRESULTHANDLE result w of (hresult, result1, w1) \<Rightarrow>
        (case result_get_no_match_reason e hresult of (hr, reason) \<Rightarrow>
           (case SPX_IFFAILED_THROW_HR hr (w1 @ [Call_result_get_no_match_reason hresult]) of
              (Inl err, w2) \<Rightarrow> (Inl err, result1, w2)
            | (Inr _, w2) \<Rightarrow> (Inr reason, result1, w2))))"

definition NoMatchDetails_ctor ::
  "engine \<Rightarrow> RecognitionResult \<Rightarrow> world \<Rightarrow> (error + NoMatchDetails) \<times> RecognitionResult \<times> world" where
  "NoMatchDetails_ctor e result w =
     (case GetNoMatchReason e result w of
        (Inl err, result1, w1) \<Rightarrow> (Inl err, result1, w1)
      | (Inr reason, result1, w1) \<Rightarrow> (Inr \<lparr>nomatch_m_reason = reason\<rparr>, result1, w1))"

text \<open>
  \<open>NoMatchDetails::FromResult(result)\<close>; the check of \<open>result->Reason\<close> against
  \<open>ResultReason::NoMatch\<close> is commented out in the source. The parameter is a
  \<open>std::shared_ptr\<close> taken by value, destroyed when the call ends.
\<close>

definition NoMatchDetails_FromResult ::
  "engine \<Rightarrow> RecognitionResult \<Rightarrow> nat \<Rightarrow> world
     \<Rightarrow> (error + NoMatchDetails) \<times> RecognitionResult option \<times> world" where
  "NoMatchDetails_FromResult e result use_count w =
     (case NoMatchDetails_ctor e result w of (noMatch, result1, w1) \<Rightarrow>
        (case shared_ptr_dtor result1 use_count w1 of (result2, w2) \<Rightarrow>
           (noMatch, result2, w2)))"

section \<open>The engine's bounded string reads\<close>

text \<open>
  Modelled from the spec: the bodies of \<open>result_get_result_id\<close> and \<open>result_get_text\<close> are in
  the native library, which is not among the sources. For the spec they are "fixed-size
  buffered string reads (bounded, e.g. 1024 bytes)", and "callers must tolerate truncation
  beyond the bound". \<open>q\<close> gives, for a handle, the status of the query and the whole string
  the engine holds; the read leaves in the caller's buffer at most \<open>cch\<close> characters of it
  and reports the same status, whatever the length.
\<close>

definition bounded_string_query ::
  "(SPXRESULTHANDLE \<Rightarrow> SPXHR \<times> string) \<Rightarrow> SPXRESULTHANDLE \<Rightarrow> nat \<Rightarrow> SPXHR \<times> string" where
  "bounded_string_query q h cch = (fst (q h), take cch (snd (q h)))"

section \<open>Example engines\<close>

text \<open>
  The example of the spec: a handle reports id "abc123", a reason (the integer 3 stands for the
  engine's value of Recognized), text "hello world", offset 5000000 and duration 10000000.
  Every query succeeds; the property bag has handle 7 and holds no property.
\<close>

definition engine_example :: engine where
  "engine_example =
     \<lparr>result_get_property_bag = (\<lambda>h. (0, Some (SPXHANDLE 7))),
      result_get_result_id = (\<lambda>h cch. (0, ''abc123'')),
      result_get_reason = (\<lambda>h. (0, 3)),
      result_get_text = (\<lambda>h cch. (0, ''hello world'')),
      result_get_offset = (\<lambda>h. (0, 5000000)),
      result_get_duration = (\<lambda>h. (0, 10000000)),
      result_get_reason_canceled = (\<lambda>h. (0, 1)),
      result_get_canceled_error_code = (\<lambda>h. (0, 0)),
      result_get_no_match_reason = (\<lambda>h. (0, 2)),
      property_bag = (\<lambda>hpropbag propertyID. None)\<rparr>"

text \<open>The object the constructor builds from handle 1 of \<open>engine_example\<close>.\<close>

definition example_result :: RecognitionResult where
  "example_result =
     \<lparr>m_properties = PropertyCollection (SPXHANDLE 7), m_hresult = SPXHANDLE 1,
      m_resultId = ''abc123'', m_reason = 3, m_text = ''hello world'',
      m_offset = 5000000, m_duration = 10000000\<rparr>"

text \<open>The calls the constructor makes on handle 1, in order.\<close>

definition example_log :: world where
  "example_log =
     [Call_result_get_property_bag (SPXHANDLE 1), Call_result_get_result_id (SPXHANDLE 1) 1024,
      Call_result_get_reason (SPXHANDLE 1), Call_result_get_text (SPXHANDLE 1) 1024,
      Call_result_get_offset (SPXHANDLE 1), Call_result_get_duration (SPXHANDLE 1)]"

text \<open>The same engine, except that \<open>result_get_reason\<close> reports the failure status 5.\<close>

definition engine_failing :: engine where
  "engine_failing = engine_example\<lparr>result_get_reason := (\<lambda>h. (5, 0))\<rparr>"

text \<open>
  An engine whose result id is 2000 characters and whose text is 3000 characters long, read
  through the bounded reads above.
\<close>

definition engine_long :: engine where
  "engine_long =
     engine_example
       \<lparr>result_get_result_id := bounded_string_query (\<lambda>h. (0, replicate 2000 CHR ''a'')),
        result_get_text := bounded_string_query (\<lambda>h. (0, replicate 3000 CHR ''b''))\<rparr>"

section \<open>What the functions compute\<close>

lemma release_count_append:
  "release_count (w @ w') h = release_count w h + release_count w' h"
  by (induction w) (simp_all add: release_count_def)

text \<open>
  The constructor, statement by statement: the log it leaves and the first status that makes
  it throw.
\<close>

lemma RecognitionResult_ctor_unfold:
  "RecognitionResult_ctor e h w =
     (let w1 = w @ [Call_result_get_property_bag h];
          w2 = w1 @ [Call_result_get_result_id h 1024];
          w3 = w2 @ [Call_result_get_reason h];
          w4 = w3 @ [Call_result_get_text h 1024];
          w5 = w4 @ [Call_result_get_offset h];
          w6 = w5 @ [Call_result_get_duration h]
      in if SPX_FAILED (fst (result_get_result_id e h 1024))
           then (Inl (EngineError (fst (result_get_result_id e h 1024))), w2)
         else if SPX_FAILED (fst (result_get_reason e h))
           then (Inl (EngineError (fst (result_get_reason e h))), w3)
         else if SPX_FAILED (fst (result_get_text e h 1024))
           then (Inl (EngineError (fst (result_get_text e h 1024))), w4)
         else if SPX_FAILED (fst (result_get_offset e h))
           then (Inl (EngineError (fst (result_get_offset e h))), w5)
         else if SPX_FAILED (fst (result_get_duration e h))
           then (Inl (EngineError (fst (result_get_duration e h))), w6)
         else (Inr \<lparr>m_properties = fst (PrivatePropertyCollection e h w), m_hresult = h,
                    m_resultId = snd (result_get_result_id e h 1024),
                    m_reason = snd (result_get_reason e h),
                    m_text = snd (result_get_text e h 1024),
                    m_offset = snd (result_get_offset e h),
                    m_duration = snd (result_get_duration e h)\<rparr>, w6))"
  by (simp add: RecognitionResult_ctor_def PrivatePropertyCollection_def PopulateResultFields_def
      andThen_def SPX_THROW_ON_FAIL_def ToSPXString_def Let_def split: prod.splits)

text \<open>
  Called with three non-null pointers, \<open>PopulateResultFields\<close> assigns every member that the
  constructor's initialiser list leaves indeterminate: its result does not depend on them.
\<close>

lemma PopulateResultFields_assigns_all:
  assumes "m_properties this' = m_properties this" and "m_hresult this' = m_hresult this"
  shows "PopulateResultFields e h True True True this' w =
         PopulateResultFields e h True True True this w"
  using assms
  by (cases this; cases this')
     (simp add: PopulateResultFields_def andThen_def SPX_THROW_ON_FAIL_def Let_def
        split: prod.splits)

lemma RecognitionResult_ctor_success:
  assumes "RecognitionResult_ctor e h w = (Inr this, w1)"
  shows "this = \<lparr>m_properties = fst (PrivatePropertyCollection e h w), m_hresult = h,
                    m_resultId = snd (result_get_result_id e h 1024),
                    m_reason = snd (result_get_reason e h),
                    m_text = snd (result_get_text e h 1024),
                    m_offset = snd (result_get_offset e h),
                    m_duration = snd (result_get_duration e h)\<rparr>"
    and "w1 = w @ [Call_result_get_property_bag h, Call_result_get_result_id h 1024,
                   Call_result_get_reason h, Call_result_get_text h 1024,
                   Call_result_get_offset h, Call_result_get_duration h]"
  using assms
  by (simp_all add: RecognitionResult_ctor_unfold Let_def split: if_splits)

lemma RecognitionResult_ctor_no_release:
  "release_count (snd (RecognitionResult_ctor e h w)) h' = release_count w h'"
  by (simp add: RecognitionResult_ctor_unfold Let_def release_count_def)

lemma example_built:
  "RecognitionResult_ctor engine_example (SPXHANDLE 1) [] = (Inr example_result, example_log)"
  by (simp add: RecognitionResult_ctor_unfold Let_def engine_example_def example_result_def
      example_log_def PrivatePropertyCollection_def SPX_FAILED_def SPX_NOERROR_def)

lemma GetCancellationReason_unfold:
  "GetCancellationReason e result w =
     (if SPX_FAILED (fst (result_get_reason_canceled e (m_hresult result)))
      then Inl (EngineError (fst (result_get_reason_canceled e (m_hresult result))))
      else Inr (snd (result_get_reason_canceled e (m_hresult result))),
      result, w @ [Call_result_get_reason_canceled (m_hresult result)])"
  by (simp add: GetCancellationReason_def operator_SPXRESULTHANDLE_def SPX_IFFAILED_THROW_HR_def
      split: prod.splits)

lemma GetCancellationErrorCode_unfold:
  "GetCancellationErrorCode e result w =
     (if SPX_FAILED (fst (result_get_canceled_error_code e (m_hresult result)))
      then Inl (EngineError (fst (result_get_canceled_error_code e (m_hresult result))))
      else Inr (snd (result_get_canceled_error_code e (m_hresult result))),
      result, w @ [Call_result_get_canceled_error_code (m_hresult result)])"
  by (simp add: GetCancellationErrorCode_def operator_SPXRESULTHANDLE_def
      SPX_IFFAILED_THROW_HR_def split: prod.splits)

lemma GetNoMatchReason_unfold:
  "GetNoMatchReason e result w =
     (if SPX_FAILED (fst (result_get_no_match_reason e (m_hresult result)))
      then Inl (EngineError (fst (result_get_no_match_reason e (m_hresult result))))
      else Inr (snd (result_get_no_match_reason e (m_hresult result))),
      result, w @ [Call_result_get_no_match_reason (m_hresult result)])"
  by (simp add: GetNoMatchReason_def operator_SPXRESULTHANDLE_def SPX_IFFAILED_THROW_HR_def
      split: prod.splits)

lemma GetProperty_unfold:
  "GetProperty e pc k w =
     (case property_bag e (propbag_handle pc) k of None \<Rightarrow> [] | Some s \<Rightarrow> s,
      w @ [Call_property_bag_get_string (propbag_handle pc) k])"
  by (simp add: GetProperty_def split: option.splits)

lemma CancellationDetails_ctor_unfold:
  "CancellationDetails_ctor e result w =
     (let h = m_hresult result;
          w1 = w @ [Call_result_get_reason_canceled h];
          w2 = w1 @ [Call_result_get_canceled_error_code h];
          w3 = w2 @ [Call_property_bag_get_string (propbag_handle (m_properties result))
                       SpeechServiceResponse_JsonErrorDetails]
      in if SPX_FAILED (fst (result_get_reason_canceled e h))
           then (Inl (EngineError (fst (result_get_reason_canceled e h))), result, w1)
         else if SPX_FAILED (fst (result_get_canceled_error_code e h))
           then (Inl (EngineError (fst (result_get_canceled_error_code e h))), result, w2)
         else (Inr \<lparr>cancellation_m_reason = snd (result_get_reason_canceled e h),
                    cancellation_m_errorCode = snd (result_get_canceled_error_code e h),
                    cancellation_ErrorDetails =
                      (case property_bag e (propbag_handle (m_properties result))
                              SpeechServiceResponse_JsonErrorDetails of
                         None \<Rightarrow> [] | Some s \<Rightarrow> s)\<rparr>, result, w3))"
  by (simp add: CancellationDetails_ctor_def
      GetCancellationReason_unfold GetCancellationErrorCode_unfold GetProperty_unfold
      Properties_def Let_def)

lemma NoMatchDetails_ctor_unfold:
  "NoMatchDetails_ctor e result w =
     (if SPX_FAILED (fst (result_get_no_match_reason e (m_hresult result)))
      then Inl (EngineError (fst (result_get_no_match_reason e (m_hresult result))))
      else Inr \<lparr>nomatch_m_reason = snd (result_get_no_match_reason e (m_hresult result))\<rparr>,
      result, w @ [Call_result_get_no_match_reason (m_hresult result)])"
  by (simp add: NoMatchDetails_ctor_def GetNoMatchReason_unfold)

text \<open>
  \<open>FromResult\<close> is the construction followed by the end of the parameter: the outcome is
  the constructor's, and the result is released exactly when the parameter was its only owner.
\<close>

lemma CancellationDetails_FromResult_unfold:
  "CancellationDetails_FromResult e result use_count w =
     (fst (CancellationDetails_ctor e result w),
      (if use_count \<le> 1 then None else Some result),
      snd (snd (CancellationDetails_ctor e result w)) @
        (if use_count \<le> 1 then [Call_recognizer_result_handle_release (m_hresult result)]
         else []))"
  by (simp add: CancellationDetails_FromResult_def CancellationDetails_ctor_unfold
      shared_ptr_dtor_def RecognitionResult_dtor_def Let_def)

lemma NoMatchDetails_FromResult_unfold:
  "NoMatchDetails_FromResult e result use_count w =
     (fst (NoMatchDetails_ctor e result w),
      (if use_count \<le> 1 then None else Some result),
      snd (snd (NoMatchDetails_ctor e result w)) @
        (if use_count \<le> 1 then [Call_recognizer_result_handle_release (m_hresult result)]
         else []))"
  by (simp add: NoMatchDetails_FromResult_def NoMatchDetails_ctor_unfold
      shared_ptr_dtor_def RecognitionResult_dtor_def)

text \<open>
  With the check against \<open>ResultReason::Canceled\<close> commented out, the reason cached in the
  result plays no part in the outcome of \<open>CancellationDetails::FromResult\<close>.
\<close>

lemma CancellationDetails_FromResult_ignores_reason:
  "fst (CancellationDetails_FromResult e (result\<lparr>m_reason := r\<rparr>) use_count w) =
   fst (CancellationDetails_FromResult e result use_count w)"
  by (simp add: CancellationDetails_FromResult_unfold CancellationDetails_ctor_unfold Let_def)

text \<open>
  When the parameter of \<open>FromResult\<close> is the only owner of the result, the result is destroyed
  as the call ends, on the throwing path too, and its handle is released once.
\<close>

lemma FromResult_last_owner:
  "fst (snd (CancellationDetails_FromResult e result 1 w)) = None \<and>
   fst (snd (NoMatchDetails_FromResult e result 1 w)) = None \<and>
   release_count (snd (snd (CancellationDetails_FromResult e result 1 w))) (m_hresult result) =
     release_count w (m_hresult result) + 1 \<and>
   release_count (snd (snd (NoMatchDetails_FromResult e result 1 w))) (m_hresult result) =
     release_count w (m_hresult result) + 1"
  by (simp add: CancellationDetails_FromResult_unfold NoMatchDetails_FromResult_unfold
      CancellationDetails_ctor_unfold NoMatchDetails_ctor_unfold Let_def release_count_def)

section \<open>Lifetime of the handle\<close>

text \<open>
  Claim C1, as amended. When the construction of a \<open>RecognitionResult\<close> from a valid handle
  completes, the constructor has released nothing; the destructor then releases the handle
  exactly once and overwrites the stored handle with \<open>SPXHANDLE_INVALID\<close>, so that running
  the destructor's body a second time passes \<open>SPXHANDLE_INVALID\<close> to the release function and
  the handle itself is still released exactly once.
\<close>

theorem RecognitionResult_release_once:
  assumes "RecognitionResult_ctor e h w = (Inr this, w1)"
    and "h \<noteq> SPXHANDLE_INVALID"
  shows "release_count w1 h = release_count w h \<and>
         release_count (snd (RecognitionResult_dtor this w1)) h = release_count w h + 1 \<and>
         m_hresult (fst (RecognitionResult_dtor this w1)) = SPXHANDLE_INVALID \<and>
         snd (RecognitionResult_dtor (fst (RecognitionResult_dtor this w1))
                (snd (RecognitionResult_dtor this w1))) =
           w1 @ [Call_recognizer_result_handle_release h,
                 Call_recognizer_result_handle_release SPXHANDLE_INVALID] \<and>
         release_count
           (snd (RecognitionResult_dtor (fst (RecognitionResult_dtor this w1))
                   (snd (RecognitionResult_dtor this w1)))) h = release_count w h + 1"
proof -
  have handle: "m_hresult this = h"
    using RecognitionResult_ctor_success(1) [OF assms(1)] by simp
  have kept: "release_count w1 h = release_count w h"
    using RecognitionResult_ctor_no_release [of e h w h] assms(1) by simp
  have first: "release_count (snd (RecognitionResult_dtor this w1)) h = release_count w h + 1"
    using handle kept
    by (simp add: RecognitionResult_dtor_def release_count_append) (simp add: release_count_def)
  have second:
    "release_count
       (snd (RecognitionResult_dtor (fst (RecognitionResult_dtor this w1))
               (snd (RecognitionResult_dtor this w1)))) h
     = release_count (snd (RecognitionResult_dtor this w1)) h"
    using assms(2)
    by (simp add: RecognitionResult_dtor_def release_count_append) (simp add: release_count_def)
  show ?thesis
    using handle kept first second by (simp add: RecognitionResult_dtor_def)
qed

theorem RecognitionResult_release_once_witness:
  "RecognitionResult_ctor engine_example (SPXHANDLE 1) [] = (Inr example_result, example_log) \<and>
   SPXHANDLE 1 \<noteq> SPXHANDLE_INVALID \<and>
   release_count example_log (SPXHANDLE 1) = 0 \<and>
   release_count (snd (RecognitionResult_dtor example_result example_log)) (SPXHANDLE 1) = 1 \<and>
   m_hresult (fst (RecognitionResult_dtor example_result example_log)) = SPXHANDLE_INVALID \<and>
   release_count
     (snd (RecognitionResult_dtor (fst (RecognitionResult_dtor example_result example_log))
             (snd (RecognitionResult_dtor example_result example_log)))) (SPXHANDLE 1) = 1"
proof -
  have valid: "SPXHANDLE 1 \<noteq> SPXHANDLE_INVALID"
    by simp
  show ?thesis
    using example_built RecognitionResult_release_once [OF example_built valid]
    by (simp add: release_count_def)
qed

text \<open>
  Claim C1 as stated fails where a query fails during construction. With \<open>engine_failing\<close>
  the constructor calls \<open>result_get_property_bag\<close>, \<open>result_get_result_id\<close> and
  \<open>result_get_reason\<close> and throws with status 5. The log then holds no release, and no object
  exists whose destructor could run: on this exit path the handle is not released once.
\<close>

theorem RecognitionResult_ctor_throw_counterexample:
  "fst (RecognitionResult_ctor engine_failing (SPXHANDLE 1) []) = Inl (EngineError 5) \<and>
   snd (RecognitionResult_ctor engine_failing (SPXHANDLE 1) []) =
     [Call_result_get_property_bag (SPXHANDLE 1), Call_result_get_result_id (SPXHANDLE 1) 1024,
      Call_result_get_reason (SPXHANDLE 1)] \<and>
   release_count (snd (RecognitionResult_ctor engine_failing (SPXHANDLE 1) [])) (SPXHANDLE 1) \<noteq> 1"
  by (simp add: RecognitionResult_ctor_unfold Let_def engine_failing_def engine_example_def
      SPX_FAILED_def SPX_NOERROR_def release_count_def)

section \<open>Construction\<close>

text \<open>
  Claim C2. For a handle on which the five queries of the constructor succeed, the constructor
  returns an object, and reading \<open>ResultId\<close>, \<open>Text\<close>, \<open>Reason\<close>, \<open>Offset()\<close> and
  \<open>Duration()\<close> of it gives exactly the values the engine's queries returned for that handle.
\<close>

theorem RecognitionResult_fidelity:
  assumes "\<not> SPX_FAILED (fst (result_get_result_id e h 1024))"
    and "\<not> SPX_FAILED (fst (result_get_reason e h))"
    and "\<not> SPX_FAILED (fst (result_get_text e h 1024))"
    and "\<not> SPX_FAILED (fst (result_get_offset e h))"
    and "\<not> SPX_FAILED (fst (result_get_duration e h))"
  shows "\<exists>this w1. RecognitionResult_ctor e h w = (Inr this, w1) \<and>
           fst (ResultId this w1) = snd (result_get_result_id e h 1024) \<and>
           fst (Text this w1) = snd (result_get_text e h 1024) \<and>
           fst (Reason this w1) = snd (result_get_reason e h) \<and>
           fst (Offset this w1) = snd (result_get_offset e h) \<and>
           fst (Duration this w1) = snd (result_get_duration e h)"
  using assms
  by (simp add: RecognitionResult_ctor_unfold Let_def ResultId_def Text_def Reason_def
      Offset_def Duration_def)

text \<open>The example of the spec: the five values come out unchanged.\<close>

theorem RecognitionResult_fidelity_witness:
  "\<exists>this w1. RecognitionResult_ctor engine_example (SPXHANDLE 1) [] = (Inr this, w1) \<and>
      fst (ResultId this w1) = ''abc123'' \<and>
      fst (Text this w1) = ''hello world'' \<and>
      fst (Reason this w1) = 3 \<and>
      fst (Offset this w1) = 5000000 \<and>
      fst (Duration this w1) = 10000000"
  using RecognitionResult_fidelity [of engine_example "SPXHANDLE 1" "[]"]
  by (simp add: engine_example_def SPX_FAILED_def SPX_NOERROR_def)

text \<open>
  Claim C3. If one of the five queries of the constructor (result id, reason, text, offset,
  duration) reports failure, the constructor throws \<open>EngineError\<close> with the status of the
  first query that failed, and it returns no object, whatever the earlier queries had stored.
\<close>

theorem RecognitionResult_ctor_all_or_nothing:
  assumes "SPX_FAILED (fst (result_get_result_id e h 1024)) \<or>
           SPX_FAILED (fst (result_get_reason e h)) \<or>
           SPX_FAILED (fst (result_get_text e h 1024)) \<or>
           SPX_FAILED (fst (result_get_offset e h)) \<or>
           SPX_FAILED (fst (result_get_duration e h))"
  shows "\<exists>hr. find SPX_FAILED
                [fst (result_get_result_id e h 1024), fst (result_get_reason e h),
                 fst (result_get_text e h 1024), fst (result_get_offset e h),
                 fst (result_get_duration e h)] = Some hr \<and>
              SPX_FAILED hr \<and>
              fst (RecognitionResult_ctor e h w) = Inl (EngineError hr) \<and>
              (\<forall>this. fst (RecognitionResult_ctor e h w) \<noteq> Inr this)"
  using assms
  by (auto simp add: RecognitionResult_ctor_unfold Let_def)

theorem RecognitionResult_ctor_all_or_nothing_witness:
  "SPX_FAILED (fst (result_get_reason engine_failing (SPXHANDLE 1))) \<and>
   fst (RecognitionResult_ctor engine_failing (SPXHANDLE 1) []) = Inl (EngineError 5)"
  using RecognitionResult_ctor_all_or_nothing [of engine_failing "SPXHANDLE 1" "[]"]
  by (simp add: engine_failing_def engine_example_def SPX_FAILED_def SPX_NOERROR_def)

text \<open>
  Claim C8. The constructor reads the result id and the text with the bound
  \<open>maxCharCount = 1024\<close>. With the engine's string reads as the spec describes them
  (\<open>bounded_string_query\<close>), the construction succeeds whenever the five statuses report
  success, however long the engine's strings are; the stored id and text are the first 1024
  characters of the engine's strings, so each has at most 1024 characters.
\<close>

theorem RecognitionResult_strings_bounded:
  assumes "result_get_result_id e = bounded_string_query id_of"
    and "result_get_text e = bounded_string_query text_of"
    and "\<not> SPX_FAILED (fst (id_of h))"
    and "\<not> SPX_FAILED (fst (result_get_reason e h))"
    and "\<not> SPX_FAILED (fst (text_of h))"
    and "\<not> SPX_FAILED (fst (result_get_offset e h))"
    and "\<not> SPX_FAILED (fst (result_get_duration e h))"
  shows "\<exists>this w1. RecognitionResult_ctor e h w = (Inr this, w1) \<and>
           Call_result_get_result_id h 1024 \<in> set w1 \<and>
           Call_result_get_text h 1024 \<in> set w1 \<and>
           m_resultId this = take 1024 (snd (id_of h)) \<and>
           m_text this = take 1024 (snd (text_of h)) \<and>
           length (m_resultId this) \<le> 1024 \<and>
           length (m_text this) \<le> 1024"
  using assms
  by (simp add: RecognitionResult_ctor_unfold Let_def bounded_string_query_def)

text \<open>An id of 2000 and a text of 3000 characters are cut to 1024; the construction succeeds.\<close>

theorem RecognitionResult_strings_bounded_witness:
  "\<exists>this w1. RecognitionResult_ctor engine_long (SPXHANDLE 1) [] = (Inr this, w1) \<and>
      m_resultId this = replicate 1024 CHR ''a'' \<and>
      m_text this = replicate 1024 CHR ''b'' \<and>
      length (m_resultId this) \<le> 1024 \<and>
      length (m_text this) \<le> 1024"
  using RecognitionResult_strings_bounded
          [of engine_long "\<lambda>h. (0, replicate 2000 CHR ''a'')"
              "\<lambda>h. (0, replicate 3000 CHR ''b'')" "SPXHANDLE 1" "[]"]
  by (auto simp add: engine_long_def engine_example_def SPX_FAILED_def SPX_NOERROR_def)

section \<open>Reading a result\<close>

text \<open>
  Claim C6. On a constructed \<open>RecognitionResult\<close>, reading \<open>ResultId\<close>, \<open>Text\<close>,
  \<open>Reason\<close>, \<open>Offset()\<close> or \<open>Duration()\<close>, at any later moment, returns the value the
  constructor cached, makes no call into the engine (the log is the same after the read) and
  leaves the object as it was; so a second read returns the same value.
\<close>

theorem RecognitionResult_accessors_pure:
  assumes "RecognitionResult_ctor e h w0 = (Inr this, w1)"
  shows "\<forall>w. ResultId this w = (snd (result_get_result_id e h 1024), this, w) \<and>
             Text this w = (snd (result_get_text e h 1024), this, w) \<and>
             Reason this w = (snd (result_get_reason e h), this, w) \<and>
             Offset this w = (snd (result_get_offset e h), this, w) \<and>
             Duration this w = (snd (result_get_duration e h), this, w)"
  using RecognitionResult_ctor_success(1) [OF assms]
  by (simp add: ResultId_def Text_def Reason_def Offset_def Duration_def)

theorem RecognitionResult_accessors_pure_witness:
  "ResultId example_result example_log = (''abc123'', example_result, example_log) \<and>
   Text example_result example_log = (''hello world'', example_result, example_log) \<and>
   Reason example_result example_log = (3, example_result, example_log) \<and>
   Offset example_result example_log = (5000000, example_result, example_log) \<and>
   Duration example_result example_log = (10000000, example_result, example_log)"
  using RecognitionResult_accessors_pure [OF example_built]
  by (simp add: engine_example_def)

text \<open>
  Claim C9, as amended. Exactly one public member of \<open>RecognitionResult\<close> returns the raw
  handle: the explicit conversion operator to \<open>SPXRESULTHANDLE\<close>, which returns the stored
  handle. No other public read member (\<open>ResultId\<close>, \<open>Reason\<close>, \<open>Text\<close>, \<open>Duration()\<close>,
  \<open>Offset()\<close>, \<open>Properties\<close>) returns it.
\<close>

theorem raw_handle_only_by_conversion_operator:
  "(public_read m this w = Value_SPXRESULTHANDLE h) =
   (m = Member_operator_SPXRESULTHANDLE \<and> h = m_hresult this)"
  by (cases m) (auto simp add: operator_SPXRESULTHANDLE_def)

text \<open>
  Claim C9 as stated fails: the public conversion operator hands the raw handle of
  \<open>example_result\<close>, handle 1, to its caller.
\<close>

theorem operator_SPXRESULTHANDLE_counterexample:
  "public_read Member_operator_SPXRESULTHANDLE example_result example_log =
     Value_SPXRESULTHANDLE (SPXHANDLE 1) \<and>
   m_hresult example_result = SPXHANDLE 1"
  by (simp add: operator_SPXRESULTHANDLE_def example_result_def)

section \<open>Detail views\<close>

text \<open>
  Claim C4. \<open>CancellationDetails::FromResult\<close> on a result whose reason is not
  \<open>Canceled\<close> (whichever integer the enumeration gives that name) succeeds when the two
  cancellation queries succeed, and \<open>Reason\<close> and \<open>ErrorCode\<close> of the details are the values
  the engine returned for them. This holds however many owners the result has; the result
  lives on unchanged unless the parameter was its only owner.
\<close>

theorem CancellationDetails_FromResult_not_Canceled:
  assumes "m_reason result \<noteq> Canceled"
    and "\<not> SPX_FAILED (fst (result_get_reason_canceled e (m_hresult result)))"
    and "\<not> SPX_FAILED (fst (result_get_canceled_error_code e (m_hresult result)))"
  shows "\<exists>d w1. CancellationDetails_FromResult e result use_count w =
                   (Inr d, (if use_count \<le> 1 then None else Some result), w1) \<and>
           CancellationDetails_Reason d = snd (result_get_reason_canceled e (m_hresult result)) \<and>
           CancellationDetails_ErrorCode d =
             snd (result_get_canceled_error_code e (m_hresult result))"
  using assms(2,3)
  by (simp add: CancellationDetails_FromResult_unfold CancellationDetails_ctor_unfold Let_def
      CancellationDetails_Reason_def CancellationDetails_ErrorCode_def)

text \<open>
  The result of the example has reason 3; with \<open>Canceled\<close> as 1 the details are built. The
  caller keeps a reference to the result (two owners).
\<close>

theorem CancellationDetails_FromResult_not_Canceled_witness:
  "m_reason example_result \<noteq> 1 \<and>
   (\<exists>d w1. CancellationDetails_FromResult engine_example example_result 2 example_log
              = (Inr d, Some example_result, w1) \<and>
           CancellationDetails_Reason d = 1 \<and> CancellationDetails_ErrorCode d = 0)"
  using CancellationDetails_FromResult_not_Canceled
          [of example_result 1 engine_example 2 example_log]
  by (simp add: engine_example_def example_result_def SPX_FAILED_def SPX_NOERROR_def)

text \<open>
  Claim C5. \<open>NoMatchDetails::FromResult\<close> makes exactly one query into the engine,
  \<open>result_get_no_match_reason\<close> on the result's handle; the only other call it can cause is
  the release of the result when the parameter was its only owner. It throws \<open>EngineError\<close>
  (with the status of that query) if and only if the query reports failure, and otherwise
  returns the details with the reason the engine returned. The reason cached in the result
  plays no part.
\<close>

theorem NoMatchDetails_FromResult_one_query:
  "snd (snd (NoMatchDetails_FromResult e result use_count w)) =
     w @ [Call_result_get_no_match_reason (m_hresult result)] @
       (if use_count \<le> 1 then [Call_recognizer_result_handle_release (m_hresult result)]
        else []) \<and>
   fst (NoMatchDetails_FromResult e result use_count w) =
     (if SPX_FAILED (fst (result_get_no_match_reason e (m_hresult result)))
      then Inl (EngineError (fst (result_get_no_match_reason e (m_hresult result))))
      else Inr \<lparr>nomatch_m_reason = snd (result_get_no_match_reason e (m_hresult result))\<rparr>) \<and>
   (\<exists>code. fst (NoMatchDetails_FromResult e result use_count w) = Inl (EngineError code)) =
     SPX_FAILED (fst (result_get_no_match_reason e (m_hresult result))) \<and>
   fst (NoMatchDetails_FromResult e (result\<lparr>m_reason := r\<rparr>) use_count w) =
     fst (NoMatchDetails_FromResult e result use_count w)"
  by (simp add: NoMatchDetails_FromResult_unfold NoMatchDetails_ctor_unfold)

text \<open>With two owners the log grows by the one query and the result lives on.\<close>

theorem NoMatchDetails_FromResult_one_query_witness:
  "NoMatchDetails_FromResult engine_example example_result 2 example_log =
     (Inr \<lparr>nomatch_m_reason = 2\<rparr>, Some example_result,
      example_log @ [Call_result_get_no_match_reason (SPXHANDLE 1)])"
  using NoMatchDetails_FromResult_one_query [of engine_example example_result 2 example_log 3]
  by (simp add: engine_example_def example_result_def SPX_FAILED_def SPX_NOERROR_def
      prod_eq_iff NoMatchDetails_FromResult_unfold)

text \<open>
  Claim C7. When the two cancellation queries succeed, \<open>CancellationDetails::FromResult\<close>
  returns details whose \<open>Reason\<close> and \<open>ErrorCode\<close> are the values of
  \<open>result_get_reason_canceled\<close> and \<open>result_get_canceled_error_code\<close> and whose
  \<open>ErrorDetails\<close> is the property \<open>SpeechServiceResponse_JsonErrorDetails\<close> of the result's
  property collection; when the bag has no such property, \<open>ErrorDetails\<close> is the empty string
  and the construction still succeeds. This holds however many owners the result has.
\<close>

theorem CancellationDetails_FromResult_values:
  assumes "\<not> SPX_FAILED (fst (result_get_reason_canceled e (m_hresult result)))"
    and "\<not> SPX_FAILED (fst (result_get_canceled_error_code e (m_hresult result)))"
  shows "\<exists>d w1. CancellationDetails_FromResult e result use_count w =
                   (Inr d, (if use_count \<le> 1 then None else Some result), w1) \<and>
           CancellationDetails_Reason d = snd (result_get_reason_canceled e (m_hresult result)) \<and>
           CancellationDetails_ErrorCode d =
             snd (result_get_canceled_error_code e (m_hresult result)) \<and>
           cancellation_ErrorDetails d =
             (case property_bag e (propbag_handle (m_properties result))
                     SpeechServiceResponse_JsonErrorDetails of
                None \<Rightarrow> [] | Some s \<Rightarrow> s)"
  using assms
  by (simp add: CancellationDetails_FromResult_unfold CancellationDetails_ctor_unfold Let_def
      CancellationDetails_Reason_def CancellationDetails_ErrorCode_def)

text \<open>The property bag of the example holds no property: \<open>ErrorDetails\<close> is empty.\<close>

theorem CancellationDetails_FromResult_values_witness:
  "property_bag engine_example (propbag_handle (m_properties example_result))
     SpeechServiceResponse_JsonErrorDetails = None \<and>
   (\<exists>d w1. CancellationDetails_FromResult engine_example example_result 2 example_log
              = (Inr d, Some example_result, w1) \<and>
           CancellationDetails_Reason d = 1 \<and> CancellationDetails_ErrorCode d = 0 \<and>
           cancellation_ErrorDetails d = [])"
  using CancellationDetails_FromResult_values [of engine_example example_result 2 example_log]
  by (simp add: engine_example_def example_result_def SPX_FAILED_def SPX_NOERROR_def)

text \<open>
  Claim C10. The constructors \<open>CancellationDetails(result)\<close> and \<open>NoMatchDetails(result)\<close>,
  which take the result by raw pointer, leave the result object as it was (all of its members:
  id, text, reason, offset, duration, property collection and handle) and release no handle,
  whether they succeed or throw: they only read through the result's handle. The same holds
  of the two \<open>FromResult\<close> functions whenever the caller keeps a reference to the result of
  its own (at least two owners, \<open>Suc (Suc n)\<close>, during the call).
\<close>

theorem detail_constructors_frame:
  "fst (snd (CancellationDetails_ctor e result w)) = result \<and>
   fst (snd (NoMatchDetails_ctor e result w)) = result \<and>
   release_count (snd (snd (CancellationDetails_ctor e result w))) h = release_count w h \<and>
   release_count (snd (snd (NoMatchDetails_ctor e result w))) h = release_count w h \<and>
   fst (snd (CancellationDetails_FromResult e result (Suc (Suc n)) w)) = Some result \<and>
   fst (snd (NoMatchDetails_FromResult e result (Suc (Suc n)) w)) = Some result \<and>
   release_count (snd (snd (CancellationDetails_FromResult e result (Suc (Suc n)) w))) h =
     release_count w h \<and>
   release_count (snd (snd (NoMatchDetails_FromResult e result (Suc (Suc n)) w))) h =
     release_count w h"
  by (simp add: CancellationDetails_FromResult_unfold NoMatchDetails_FromResult_unfold
      CancellationDetails_ctor_unfold NoMatchDetails_ctor_unfold Let_def release_count_def)

end
